theory Spec2Isabelle
  imports Main "HOL-Library.AList" "HOL-Library.Char_ord" "HOL-Library.List_Lexorder" "HOL-Library.Product_Lexorder"
begin

section \<open>The wgkex broker (\<^verbatim>\<open>wgkex/broker/app.py\<close>)\<close>

text \<open>
  The broker keeps three process-global stores (worker metrics, worker endpoint data, broker
  liveness), fills them from MQTT callbacks and reads them in two HTTP handlers. The model
  passes the stores around as one record; every handler takes the state and returns the new
  one. Python dictionaries are association lists with insertion order (\<open>map_of\<close> reads,
  \<open>AList.update\<close> writes); strings are byte strings; exceptions are values.
\<close>

subsection \<open>Python values, exceptions and builtins\<close>

text \<open>
  Exceptions by their Python class. \<open>ValueError\<close> carries the message where \<^verbatim>\<open>app.py\<close> builds
  it; exceptions raised by the interpreter or a library carry none.
\<close>

datatype exn =
    ValueError string
  | InvalidLiteral
  | UnpackError
  | TypeError
  | AttributeError
  | UnboundLocalError string
  | UnicodeDecodeError
  | JSONDecodeError
  | BadRequest

text \<open>
  A decoded JSON member value, as far as the code looks at it: \<^verbatim>\<open>str(v)\<close>, \<^verbatim>\<open>int(v)\<close> and whether
  it is a string. A \<^verbatim>\<open>str\<close> is \<open>PyStr\<close>: its text, and what \<^verbatim>\<open>int\<close> returns on it (on a \<^verbatim>\<open>str\<close>,
  \<^verbatim>\<open>int\<close> also accepts the decimal digits and the whitespace of Unicode, so its result is
  given with the value and not computed from the bytes). Floats, arrays and nested objects are
  \<open>PyOther\<close>, given by what \<^verbatim>\<open>str\<close> and \<^verbatim>\<open>int\<close> return on them. A decoded document is an
  object (a \<^verbatim>\<open>dict\<close>) or any other value.
\<close>

datatype pyval =
    PyNone
  | PyBool bool
  | PyInt int
  | PyStr string "exn + int"
  | PyOther string "exn + int"

datatype json =
    JDict "(string \<times> pyval) list"
  | JValue pyval

text \<open>\<^verbatim>\<open>str(n)\<close> for an integer.\<close>

fun string_of_nat :: "nat \<Rightarrow> string" where
  "string_of_nat n =
     (if n < 10 then [''0123456789'' ! n]
      else string_of_nat (n div 10) @ [''0123456789'' ! (n mod 10)])"

definition string_of_int :: "int \<Rightarrow> string" where
  "string_of_int i = (if i < 0 then CHR ''-'' # string_of_nat (nat (- i)) else string_of_nat (nat i))"

text \<open>
  \<^verbatim>\<open>int(x)\<close> on a byte string (an MQTT payload): surrounding whitespace is stripped, then an
  optional sign and decimal digits, single underscores allowed between digits. Anything else
  raises \<^verbatim>\<open>ValueError\<close> (\<open>InvalidLiteral\<close>). The digit-count limit of recent interpreters is
  not part of the model.
\<close>

definition is_space :: "char \<Rightarrow> bool" where
  "is_space c = (c \<in> set [CHR '' '', CHR 0x09, CHR 0x0A, CHR 0x0B, CHR 0x0C, CHR 0x0D])"

definition strip :: "string \<Rightarrow> string" where
  "strip s = rev (dropWhile is_space (rev (dropWhile is_space s)))"

definition is_digit :: "char \<Rightarrow> bool" where
  "is_digit c = (CHR ''0'' \<le> c \<and> c \<le> CHR ''9'')"

definition digit_val :: "char \<Rightarrow> nat" where
  "digit_val c = of_char c - 48"

fun digits_val :: "nat \<Rightarrow> string \<Rightarrow> nat option" where
  "digits_val acc [] = Some acc"
| "digits_val acc [c] = (if is_digit c then Some (acc * 10 + digit_val c) else None)"
| "digits_val acc (c # d # cs) =
     (if is_digit c then digits_val (acc * 10 + digit_val c) (d # cs)
      else if c = CHR ''_'' \<and> is_digit d then digits_val (acc * 10 + digit_val d) cs
      else None)"

definition unsigned_int :: "string \<Rightarrow> nat option" where
  "unsigned_int s =
     (case s of
        [] \<Rightarrow> None
      | c # cs \<Rightarrow> if is_digit c then digits_val (digit_val c) cs else None)"

definition py_int :: "string \<Rightarrow> exn + int" where
  "py_int s =
     (case strip s of
        [] \<Rightarrow> Inl InvalidLiteral
      | c # cs \<Rightarrow>
          if c = CHR ''-'' then
            (case unsigned_int cs of None \<Rightarrow> Inl InvalidLiteral | Some n \<Rightarrow> Inr (- int n))
          else if c = CHR ''+'' then
            (case unsigned_int cs of None \<Rightarrow> Inl InvalidLiteral | Some n \<Rightarrow> Inr (int n))
          else
            (case unsigned_int (c # cs) of None \<Rightarrow> Inl InvalidLiteral | Some n \<Rightarrow> Inr (int n)))"

text \<open>\<^verbatim>\<open>str(v)\<close> and \<^verbatim>\<open>int(v)\<close> on a decoded JSON member (\<^verbatim>\<open>None\<close> when the key is missing).\<close>

fun py_str :: "pyval \<Rightarrow> string" where
  "py_str PyNone = ''None''"
| "py_str (PyBool b) = (if b then ''True'' else ''False'')"
| "py_str (PyInt i) = string_of_int i"
| "py_str (PyStr s r) = s"
| "py_str (PyOther s r) = s"

fun py_int_of :: "pyval \<Rightarrow> exn + int" where
  "py_int_of PyNone = Inl TypeError"
| "py_int_of (PyBool b) = Inr (if b then 1 else 0)"
| "py_int_of (PyInt i) = Inr i"
| "py_int_of (PyStr s r) = r"
| "py_int_of (PyOther s r) = r"

text \<open>\<^verbatim>\<open>msg.get(key)\<close> on a \<^verbatim>\<open>dict\<close>: the value, or \<^verbatim>\<open>None\<close>.\<close>

definition dict_get :: "(string \<times> pyval) list \<Rightarrow> string \<Rightarrow> pyval" where
  "dict_get msg key = (case map_of msg key of None \<Rightarrow> PyNone | Some v \<Rightarrow> v)"

text \<open>
  \<^verbatim>\<open>s.split(sep, maxsplit)\<close> for a one-character separator: at most \<open>maxsplit\<close> cuts, from the left;
  the last part keeps the remaining separators.
\<close>

fun partition_at :: "char \<Rightarrow> string \<Rightarrow> (string \<times> string) option" where
  "partition_at sep [] = None"
| "partition_at sep (c # cs) =
     (if c = sep then Some ([], cs)
      else (case partition_at sep cs of None \<Rightarrow> None | Some (a, b) \<Rightarrow> Some (c # a, b)))"

fun split_max :: "char \<Rightarrow> nat \<Rightarrow> string \<Rightarrow> string list" where
  "split_max sep 0 s = [s]"
| "split_max sep (Suc n) s =
     (case partition_at sep s of None \<Rightarrow> [s] | Some (a, b) \<Rightarrow> a # split_max sep n b)"

text \<open>
  \<^verbatim>\<open>payload.decode()\<close>: UTF-8, strict. The decoded text is kept in its UTF-8 bytes; a payload
  that is not well-formed UTF-8 raises \<^verbatim>\<open>UnicodeDecodeError\<close>.
\<close>

definition cont_byte :: "nat \<Rightarrow> bool" where
  "cont_byte b = (128 \<le> b \<and> b \<le> 191)"

fun utf8_valid :: "nat list \<Rightarrow> bool" where
  "utf8_valid [] = True"
| "utf8_valid (b # bs) =
     (if b < 128 then utf8_valid bs
      else if 194 \<le> b \<and> b \<le> 223 then
        (case bs of c1 # r \<Rightarrow> cont_byte c1 \<and> utf8_valid r | _ \<Rightarrow> False)
      else if 224 \<le> b \<and> b \<le> 239 then
        (case bs of
           c1 # c2 # r \<Rightarrow>
             (if b = 224 then 160 else 128) \<le> c1 \<and> c1 \<le> (if b = 237 then 159 else 191)
             \<and> cont_byte c2 \<and> utf8_valid r
         | _ \<Rightarrow> False)
      else if 240 \<le> b \<and> b \<le> 244 then
        (case bs of
           c1 # c2 # c3 # r \<Rightarrow>
             (if b = 240 then 144 else 128) \<le> c1 \<and> c1 \<le> (if b = 244 then 143 else 191)
             \<and> cont_byte c2 \<and> cont_byte c3 \<and> utf8_valid r
         | _ \<Rightarrow> False)
      else False)"

definition decode :: "string \<Rightarrow> exn + string" where
  "decode payload = (if utf8_valid (map of_char payload) then Inr payload else Inl UnicodeDecodeError)"

subsection \<open>The public-key pattern\<close>

text \<open>
  \<^verbatim>\<open>WG_PUBKEY_PATTERN = re.compile(r"^[A-Za-z0-9+/]{42}[AEIMQUYcgkosw480]=$")\<close>. The pattern is a
  sequence of character sets, each repeated a fixed number of times, between \<^verbatim>\<open>^\<close> and \<^verbatim>\<open>$\<close>.
  \<^verbatim>\<open>Pattern.match\<close> matches at the start of the string; without \<^verbatim>\<open>re.MULTILINE\<close>, \<^verbatim>\<open>$\<close> matches
  at the end of the string and also just before a newline that ends the string.
\<close>

datatype char_class = Range char char | Single char

fun in_class :: "char_class \<Rightarrow> char \<Rightarrow> bool" where
  "in_class (Range lo hi) c = (lo \<le> c \<and> c \<le> hi)"
| "in_class (Single x) c = (c = x)"

definition in_set :: "char_class list \<Rightarrow> char \<Rightarrow> bool" where
  "in_set cls c = list_ex (\<lambda>k. in_class k c) cls"

datatype re_item = Repeat "char_class list" nat

fun match_repeat :: "char_class list \<Rightarrow> nat \<Rightarrow> string \<Rightarrow> string option" where
  "match_repeat cls 0 s = Some s"
| "match_repeat cls (Suc n) [] = None"
| "match_repeat cls (Suc n) (c # cs) = (if in_set cls c then match_repeat cls n cs else None)"

fun match_items :: "re_item list \<Rightarrow> string \<Rightarrow> string option" where
  "match_items [] s = Some s"
| "match_items (Repeat cls n # items) s =
     (case match_repeat cls n s of None \<Rightarrow> None | Some rest \<Rightarrow> match_items items rest)"

definition at_dollar :: "string \<Rightarrow> bool" where
  "at_dollar rest = (rest = [] \<or> rest = [CHR 0x0A])"

definition re_match :: "re_item list \<Rightarrow> string \<Rightarrow> bool" where
  "re_match items s = (case match_items items s of None \<Rightarrow> False | Some rest \<Rightarrow> at_dollar rest)"

definition base64_set :: "char_class list" where
  "base64_set =
     [Range (CHR ''A'') (CHR ''Z''), Range (CHR ''a'') (CHR ''z''), Range (CHR ''0'') (CHR ''9''),
      Single (CHR ''+''), Single (CHR ''/'')]"

definition WG_PUBKEY_PATTERN :: "re_item list" where
  "WG_PUBKEY_PATTERN =
     [Repeat base64_set 42, Repeat (map Single ''AEIMQUYcgkosw480'') 1, Repeat [Single (CHR ''='')] 1]"

definition is_valid_wg_pubkey :: "string \<Rightarrow> exn + string" where
  "is_valid_wg_pubkey pubkey =
     (if \<not> re_match WG_PUBKEY_PATTERN pubkey
      then Inl (ValueError (''Not a valid Wireguard public key: '' @ pubkey @ ''.''))
      else Inr pubkey)"

text \<open>
  The strings the regular expression stands for, written out from the specification's words
  (a 44-character pattern: 43 significant characters and \<^verbatim>\<open>=\<close>): 42 characters of the base64
  alphabet, one of \<^verbatim>\<open>AEIMQUYcgkosw480\<close>, then \<^verbatim>\<open>=\<close>, and nothing else.
\<close>

definition base64_char :: "char \<Rightarrow> bool" where
  "base64_char c =
     ((CHR ''A'' \<le> c \<and> c \<le> CHR ''Z'') \<or> (CHR ''a'' \<le> c \<and> c \<le> CHR ''z'')
      \<or> (CHR ''0'' \<le> c \<and> c \<le> CHR ''9'') \<or> c = CHR ''+'' \<or> c = CHR ''/'')"

definition matches_wg_regex :: "string \<Rightarrow> bool" where
  "matches_wg_regex k =
     (length k = 44 \<and> list_all base64_char (take 42 k)
      \<and> k ! 42 \<in> set ''AEIMQUYcgkosw480'' \<and> k ! 43 = CHR ''='')"

subsection \<open>Configuration and topic names\<close>

text \<open>
  The configuration loader, \<^verbatim>\<open>wgkex.common.utils\<close> and \<^verbatim>\<open>wgkex.common.mqtt\<close> are not among the
  sources. The configured domains, the MQTT server's address and the host name
  (\<^verbatim>\<open>socket.gethostname()\<close>) are parameters.
\<close>

record config =
  domains :: "string list"
  hostname :: string
  broker_url :: string
  broker_port :: int

text \<open>
  Modelled from the spec: \<^verbatim>\<open>is_valid_domain\<close> of \<^verbatim>\<open>wgkex.common.utils\<close> is missing;
  ``true iff \<open>d\<close> is in the configured domain set''.
\<close>

definition is_valid_domain :: "config \<Rightarrow> string \<Rightarrow> bool" where
  "is_valid_domain cfg d = (d \<in> set (domains cfg))"

text \<open>
  Modelled from the spec: the constants of \<^verbatim>\<open>wgkex.common.mqtt\<close> are missing; the metric name
  is \<^verbatim>\<open>connected_peers\<close> and the topic schemes are
  \<^verbatim>\<open>wireguard/worker/<worker>/status\<close>, \<^verbatim>\<open>wireguard/worker/<worker>/<domain>/data\<close> and
  \<^verbatim>\<open>wireguard/broker/<broker>/status\<close>.
\<close>

definition CONNECTED_PEERS_METRIC :: string where
  "CONNECTED_PEERS_METRIC = ''connected_peers''"

definition TOPIC_WORKER_STATUS :: "string \<Rightarrow> string" where
  "TOPIC_WORKER_STATUS worker = ''wireguard/worker/'' @ worker @ ''/status''"

definition TOPIC_WORKER_WG_DATA :: "string \<Rightarrow> string \<Rightarrow> string" where
  "TOPIC_WORKER_WG_DATA worker domain = ''wireguard/worker/'' @ worker @ ''/'' @ domain @ ''/data''"

definition TOPIC_BROKER_STATUS :: "string \<Rightarrow> string" where
  "TOPIC_BROKER_STATUS broker = ''wireguard/broker/'' @ broker @ ''/status''"

subsection \<open>Data classes\<close>

record KeyExchange =
  public_key :: string
  domain :: string

record WorkerData =
  external_address :: string
  port :: int
  link_address :: string
  public_key :: string

record BrokerStatus =
  online :: bool

text \<open>
  Modelled from the spec: \<^verbatim>\<open>wgkex/broker/metrics.py\<close> (\<^verbatim>\<open>WorkerMetrics\<close>,
  \<^verbatim>\<open>WorkerMetricsCollection\<close>) is missing. A worker's record is
  \<^verbatim>\<open>{online: bool, domain_metrics: map<domain, map<metric-name, integer>>}\<close>; the collection maps
  worker ids to records.
\<close>

record WorkerMetrics =
  online :: bool
  domain_metrics :: "(string \<times> (string \<times> int) list) list"

type_synonym WorkerMetricsCollection = "(string \<times> WorkerMetrics) list"

definition is_online :: "WorkerMetrics \<Rightarrow> bool" where
  "is_online m = WorkerMetrics.online m"

definition get_domain_metrics :: "WorkerMetrics \<Rightarrow> string \<Rightarrow> (string \<times> int) list" where
  "get_domain_metrics m d = (case map_of (domain_metrics m) d of None \<Rightarrow> [] | Some dm \<Rightarrow> dm)"

text \<open>
  Modelled from the spec: \<^verbatim>\<open>WorkerMetricsCollection.get\<close> is missing;
  ``\<^verbatim>\<open>get(worker)\<close> \<open>\<rightarrow>\<close> \<^verbatim>\<open>WorkerMetrics\<close> (creating if absent)'', and ``creating a worker does
  NOT set it online''. The result is the record and the collection after the call.
\<close>

definition get :: "WorkerMetricsCollection \<Rightarrow> string \<Rightarrow> WorkerMetrics \<times> WorkerMetricsCollection" where
  "get c worker =
     (case map_of c worker of
        Some m \<Rightarrow> (m, c)
      | None \<Rightarrow>
          (\<lparr>WorkerMetrics.online = False, domain_metrics = []\<rparr>,
           c @ [(worker, \<lparr>WorkerMetrics.online = False, domain_metrics = []\<rparr>)]))"

text \<open>
  Modelled from the spec: \<^verbatim>\<open>WorkerMetricsCollection.update\<close> is missing; ``creates the worker
  record if absent; sets \<^verbatim>\<open>domain_metrics[domain][metric] = value\<close>''.
\<close>

definition update :: "WorkerMetricsCollection \<Rightarrow> string \<Rightarrow> string \<Rightarrow> string \<Rightarrow> int \<Rightarrow> WorkerMetricsCollection" where
  "update c worker d metric v =
     (case get c worker of
        (m, c1) \<Rightarrow>
          AList.update worker
            (m\<lparr>domain_metrics := AList.update d (AList.update metric v (get_domain_metrics m d)) (domain_metrics m)\<rparr>)
            c1)"

text \<open>
  Modelled from the spec: \<^verbatim>\<open>set_online\<close> and \<^verbatim>\<open>set_offline\<close> are missing; they set the worker's
  flag and are idempotent.
\<close>

definition set_online :: "WorkerMetricsCollection \<Rightarrow> string \<Rightarrow> WorkerMetricsCollection" where
  "set_online c worker =
     (case get c worker of (m, c1) \<Rightarrow> AList.update worker (m\<lparr>WorkerMetrics.online := True\<rparr>) c1)"

definition set_offline :: "WorkerMetricsCollection \<Rightarrow> string \<Rightarrow> WorkerMetricsCollection" where
  "set_offline c worker =
     (case get c worker of (m, c1) \<Rightarrow> AList.update worker (m\<lparr>WorkerMetrics.online := False\<rparr>) c1)"

text \<open>
  Modelled from the spec: \<^verbatim>\<open>get_best_worker\<close> is missing. ``Consider every worker that is
  online AND has a recorded \<^verbatim>\<open>connected_peers\<close> for \<^verbatim>\<open>domain\<close>. Return the worker with the minimum
  \<^verbatim>\<open>connected_peers\<close> for that domain; ties broken by lexicographic worker-id. \<^verbatim>\<open>current_peers\<close>
  is that minimum. \<^verbatim>\<open>diff\<close> is \<^verbatim>\<open>(second_lowest - current_peers)\<close>, or 0 if only one candidate.
  Return \<^verbatim>\<open>(None, 0, 0)\<close> if no online worker has visibility into \<^verbatim>\<open>domain\<close>.''
  The candidates are (peers, worker) pairs; sorting them orders by peers, then by worker id.
\<close>

definition candidate :: "string \<Rightarrow> string \<times> WorkerMetrics \<Rightarrow> (int \<times> string) option" where
  "candidate d e =
     (if is_online (snd e)
      then (case map_of (get_domain_metrics (snd e) d) CONNECTED_PEERS_METRIC of
              None \<Rightarrow> None
            | Some peers \<Rightarrow> Some (peers, fst e))
      else None)"

definition candidates :: "WorkerMetricsCollection \<Rightarrow> string \<Rightarrow> (int \<times> string) list" where
  "candidates c d = List.map_filter (candidate d) c"

definition get_best_worker :: "WorkerMetricsCollection \<Rightarrow> string \<Rightarrow> string option \<times> int \<times> int" where
  "get_best_worker c d =
     (case sort (candidates c d) of
        [] \<Rightarrow> (None, 0, 0)
      | [(peers, worker)] \<Rightarrow> (Some worker, 0, peers)
      | (peers, worker) # (second, other) # rest \<Rightarrow> (Some worker, second - peers, peers))"

subsection \<open>State, log and MQTT client\<close>

text \<open>
  What the handlers do to the outside is recorded in order: every \<^verbatim>\<open>logger\<close> call with its level,
  text and lazily formatted arguments, every \<^verbatim>\<open>publish\<close> with topic, payload, QoS and retain
  flag, every \<^verbatim>\<open>subscribe\<close>.
\<close>

datatype level = Debug | Info | Warning | Error

datatype log_arg = ArgStr string | ArgJson json | ArgWorkerData WorkerData

datatype event =
    Log level string "log_arg list"
  | Publish string string nat bool
  | Subscribe string

record broker_state =
  worker_metrics :: WorkerMetricsCollection
  worker_data :: "((string \<times> string) \<times> WorkerData) list"
  broker_status :: "(string \<times> BrokerStatus) list"
  events :: "event list"

definition initial_state :: broker_state where
  "initial_state = \<lparr>worker_metrics = [], worker_data = [], broker_status = [], events = []\<rparr>"

definition logger :: "level \<Rightarrow> string \<Rightarrow> log_arg list \<Rightarrow> broker_state \<Rightarrow> broker_state" where
  "logger lvl text args s = s\<lparr>events := events s @ [Log lvl text args]\<rparr>"

definition publish :: "string \<Rightarrow> string \<Rightarrow> nat \<Rightarrow> bool \<Rightarrow> broker_state \<Rightarrow> broker_state" where
  "publish t p qos retain s = s\<lparr>events := events s @ [Publish t p qos retain]\<rparr>"

definition subscribe :: "string \<Rightarrow> broker_state \<Rightarrow> broker_state" where
  "subscribe t s = s\<lparr>events := events s @ [Subscribe t]\<rparr>"

fun is_publish :: "event \<Rightarrow> bool" where
  "is_publish (Publish t p qos retain) = True"
| "is_publish e = False"

record mqtt_message =
  topic :: string
  payload :: string

subsection \<open>\<^verbatim>\<open>from_dict\<close>\<close>

text \<open>
  \<^verbatim>\<open>KeyExchange.from_dict(msg)\<close>. \<^verbatim>\<open>msg.get\<close> on a document that is no \<^verbatim>\<open>dict\<close> raises
  \<^verbatim>\<open>AttributeError\<close>; \<^verbatim>\<open>Pattern.match\<close> on a value that is no string raises \<^verbatim>\<open>TypeError\<close>.
\<close>

definition KeyExchange_from_dict :: "config \<Rightarrow> json \<Rightarrow> exn + KeyExchange" where
  "KeyExchange_from_dict cfg msg =
     (case msg of
        JValue v \<Rightarrow> Inl AttributeError
      | JDict d \<Rightarrow>
          (case (case dict_get d ''public_key'' of
                   PyStr k r \<Rightarrow> is_valid_wg_pubkey k
                 | _ \<Rightarrow> Inl TypeError) of
             Inl e \<Rightarrow> Inl e
           | Inr key \<Rightarrow>
               if \<not> is_valid_domain cfg (py_str (dict_get d ''domain''))
               then Inl (ValueError (''Domain '' @ py_str (dict_get d ''domain'') @ '' not in configured domains.''))
               else Inr \<lparr>KeyExchange.public_key = key, domain = py_str (dict_get d ''domain'')\<rparr>))"

text \<open>
  \<^verbatim>\<open>WorkerData.from_dict(msg)\<close>, line by line. Line 83, \<^verbatim>\<open>link_address = str(link_address)\<close>,
  reads the function's local variable \<^verbatim>\<open>link_address\<close> before anything was assigned to it:
  Python raises \<^verbatim>\<open>UnboundLocalError\<close> there.
\<close>

definition unbound_local :: "string \<Rightarrow> exn + pyval" where
  "unbound_local name = Inl (UnboundLocalError name)"

definition WorkerData_from_dict :: "(string \<times> pyval) list \<Rightarrow> exn + WorkerData" where
  "WorkerData_from_dict msg =
     (case py_int_of (dict_get msg ''Port'') of
        Inl e \<Rightarrow> Inl e
      | Inr p \<Rightarrow>
          (case unbound_local ''link_address'' of
             Inl e \<Rightarrow> Inl e
           | Inr la \<Rightarrow>
               (case is_valid_wg_pubkey (py_str (dict_get msg ''PublicKey'')) of
                  Inl e \<Rightarrow> Inl e
                | Inr key \<Rightarrow>
                    Inr \<lparr>external_address = py_str (dict_get msg ''ExternalAddress''),
                         port = p,
                         link_address = py_str la,
                         WorkerData.public_key = key\<rparr>)))"

subsection \<open>HTTP handlers\<close>

text \<open>
  A response is its JSON body and its status code. \<open>ErrorOf ex\<close> is
  \<^verbatim>\<open>{"error": {"message": str(ex)}}\<close>. The request body is given as what
  \<^verbatim>\<open>request.get_json(force=True)\<close> returns or raises.
\<close>

datatype response_body =
    ErrorOf exn
  | ErrorMessage string
  | MessageOK
  | Endpoint string string "string list" string

type_synonym response = "response_body \<times> nat"

definition parse_request :: "config \<Rightarrow> exn + json \<Rightarrow> exn + KeyExchange" where
  "parse_request cfg body = (case body of Inl e \<Rightarrow> Inl e | Inr msg \<Rightarrow> KeyExchange_from_dict cfg msg)"

definition wg_api_v1_key_exchange :: "config \<Rightarrow> exn + json \<Rightarrow> broker_state \<Rightarrow> response \<times> broker_state" where
  "wg_api_v1_key_exchange cfg body s =
     (case parse_request cfg body of
        Inl ex \<Rightarrow> ((ErrorOf ex, 400), s)
      | Inr data \<Rightarrow>
          (let key = KeyExchange.public_key data;
               d = domain data;
               gateway = ''all'';
               s1 = logger Info (''wg_api_v1_key_exchange: Domain: '' @ d @ '', Key:'' @ key) [] s;
               s2 = publish (''wireguard/'' @ d @ ''/'' @ gateway) key 0 False s1
           in ((MessageOK, 200), s2)))"

definition online_brokers :: "(string \<times> BrokerStatus) list \<Rightarrow> int" where
  "online_brokers bs = sum_list (map (\<lambda>e. if BrokerStatus.online (snd e) then 1 else 0) bs)"

definition current_peers_domain :: "WorkerMetrics \<Rightarrow> string \<Rightarrow> int" where
  "current_peers_domain m d =
     (case map_of (get_domain_metrics m d) CONNECTED_PEERS_METRIC of None \<Rightarrow> 0 | Some v \<Rightarrow> v)"

text \<open>
  The part of the v2 handler after a worker was chosen (lines 203 to 235): count the online
  brokers, read the worker's peers, write them back increased, then look the endpoint up.
\<close>

definition v2_serve :: "string \<Rightarrow> string \<Rightarrow> int \<Rightarrow> int \<Rightarrow> broker_state \<Rightarrow> response \<times> broker_state" where
  "v2_serve best_worker d diff current_peers s =
     (let n = online_brokers (broker_status s) in
      case get (worker_metrics s) best_worker of
        (m, c1) \<Rightarrow>
          (let c2 = update c1 best_worker d CONNECTED_PEERS_METRIC (current_peers_domain m d + n);
               s1 = logger Debug
                      (''Chose worker '' @ best_worker @ '' with '' @ string_of_int current_peers
                       @ '' connected clients ('' @ string_of_int diff @ '')'') []
                      (s\<lparr>worker_metrics := c2\<rparr>)
           in case map_of (worker_data s1) (best_worker, d) of
                None \<Rightarrow>
                  ((ErrorMessage ''could not get gateway data'', 500),
                   logger Error
                     (''Couldn't get worker endpoint data for '' @ best_worker @ ''/'' @ d) [] s1)
              | Some w_data \<Rightarrow>
                  ((Endpoint (external_address w_data) (string_of_int (port w_data))
                      [link_address w_data] (WorkerData.public_key w_data), 200),
                   s1)))"

definition wg_api_v2_key_exchange :: "config \<Rightarrow> exn + json \<Rightarrow> broker_state \<Rightarrow> response \<times> broker_state" where
  "wg_api_v2_key_exchange cfg body s =
     (case parse_request cfg body of
        Inl ex \<Rightarrow> ((ErrorOf ex, 400), s)
      | Inr data \<Rightarrow>
          (let key = KeyExchange.public_key data;
               d = domain data;
               gateway = ''all'';
               s1 = logger Info (''wg_api_v2_key_exchange: Domain: '' @ d @ '', Key:'' @ key) [] s;
               s2 = publish (''wireguard/'' @ d @ ''/'' @ gateway) key 0 False s1
           in case get_best_worker (worker_metrics s2) d of
                (None, diff, current_peers) \<Rightarrow>
                  ((ErrorMessage ''no gateway online for this domain, please check the domain value and try again later'', 400),
                   logger Warning (''No worker online for domain '' @ d) [] s2)
              | (Some best_worker, diff, current_peers) \<Rightarrow>
                  v2_serve best_worker d diff current_peers s2))"

subsection \<open>MQTT callbacks\<close>

text \<open>
  A callback returns the exception that leaves it (\<open>None\<close> when it returns normally) and the
  state at that moment.
\<close>

definition handle_mqtt_connect :: "config \<Rightarrow> broker_state \<Rightarrow> broker_state" where
  "handle_mqtt_connect cfg s =
     (let s1 = logger Debug
                 (''MQTT connected to '' @ broker_url cfg @ '':'' @ string_of_int (broker_port cfg)) [] s;
          s2 = subscribe ''wireguard-metrics/#'' s1;
          s3 = subscribe (TOPIC_WORKER_STATUS ''+'') s2;
          s4 = subscribe (TOPIC_WORKER_WG_DATA ''+'' ''+'') s3;
          s5 = subscribe (TOPIC_BROKER_STATUS ''+'') s4
      in publish (TOPIC_BROKER_STATUS (hostname cfg)) ''1'' 1 True s5)"

definition handle_mqtt_message_metrics :: "config \<Rightarrow> mqtt_message \<Rightarrow> broker_state \<Rightarrow> exn option \<times> broker_state" where
  "handle_mqtt_message_metrics cfg message s =
     (case decode (payload message) of
        Inl e \<Rightarrow> (Some e, s)
      | Inr text \<Rightarrow>
          (let s1 = logger Debug (''MQTT message received on '' @ topic message @ '': '' @ text) [] s in
           case split_max (CHR ''/'') 3 (topic message) of
             [x, d, worker, metric] \<Rightarrow>
               if \<not> is_valid_domain cfg d then
                 (None, logger Error (''Domain '' @ d @ '' not in configured domains'') [] s1)
               else if worker = [] \<or> metric = [] then
                 (None, logger Error ''Ignored MQTT message with empty worker or metrics label'' [] s1)
               else
                 (case py_int (payload message) of
                    Inl e \<Rightarrow> (Some e, s1)
                  | Inr data \<Rightarrow>
                      (let s2 = logger Info
                                  (''Update worker metrics: '' @ metric @ '' on '' @ worker @ ''/'' @ d
                                   @ '' = '' @ string_of_int data) [] s1
                       in (None, s2\<lparr>worker_metrics := update (worker_metrics s2) worker d metric data\<rparr>)))
           | _ \<Rightarrow> (Some UnpackError, s1)))"

text \<open>
  The worker-status callback. \<^verbatim>\<open>and\<close> evaluates \<^verbatim>\<open>worker_metrics.get(worker)\<close> only when its left
  operand holds, so each run calls \<^verbatim>\<open>get\<close> once: in the \<^verbatim>\<open>if\<close> when \<^verbatim>\<open>status < 1\<close>, in the
  \<^verbatim>\<open>elif\<close> otherwise.
\<close>

definition handle_mqtt_message_worker_status :: "mqtt_message \<Rightarrow> broker_state \<Rightarrow> exn option \<times> broker_state" where
  "handle_mqtt_message_worker_status message s =
     (case split_max (CHR ''/'') 2 (topic message) of
        [x, worker, y] \<Rightarrow>
          (case py_int (payload message) of
             Inl e \<Rightarrow> (Some e, s)
           | Inr status \<Rightarrow>
               (case get (worker_metrics s) worker of
                  (m, c1) \<Rightarrow>
                    if status < 1 \<and> is_online m then
                      (None, (logger Warning (''Marking worker as offline: '' @ worker) [] s)
                               \<lparr>worker_metrics := set_offline c1 worker\<rparr>)
                    else if status \<ge> 1 \<and> \<not> is_online m then
                      (None, (logger Warning (''Marking worker as online: '' @ worker) [] s)
                               \<lparr>worker_metrics := set_online c1 worker\<rparr>)
                    else (None, s\<lparr>worker_metrics := c1\<rparr>)))
      | _ \<Rightarrow> (Some UnpackError, s))"

text \<open>
  The worker-data callback. \<^verbatim>\<open>json.loads\<close> is the standard library's and is a parameter: it
  returns the decoded document or raises. It is called outside the \<^verbatim>\<open>try\<close>; the bare
  \<^verbatim>\<open>except\<close> around \<^verbatim>\<open>WorkerData.from_dict\<close> catches every exception.
\<close>

definition handle_mqtt_message_data :: "config \<Rightarrow> (string \<Rightarrow> exn + json) \<Rightarrow> mqtt_message \<Rightarrow> broker_state \<Rightarrow> exn option \<times> broker_state" where
  "handle_mqtt_message_data cfg json_loads message s =
     (case split_max (CHR ''/'') 3 (topic message) of
        [x, worker, d, y] \<Rightarrow>
          if \<not> is_valid_domain cfg d then
            (None, logger Error (''Domain '' @ d @ '' not in configured domains.'') [] s)
          else
            (case json_loads (payload message) of
               Inl e \<Rightarrow> (Some e, s)
             | Inr msg \<Rightarrow>
                 (case msg of
                    JValue v \<Rightarrow>
                      (None, logger Error ''Invalid worker data received for %s/%s: %s''
                               [ArgStr worker, ArgStr d, ArgJson msg] s)
                  | JDict obj \<Rightarrow>
                      (case WorkerData_from_dict obj of
                         Inl e \<Rightarrow>
                           (None, logger Error ''Invalid worker data received for %s/%s: %s''
                                    [ArgStr worker, ArgStr d, ArgJson msg] s)
                       | Inr w_data \<Rightarrow>
                           (let s1 = logger Info ''Worker data received for %s/%s: %s''
                                       [ArgStr worker, ArgStr d, ArgWorkerData w_data] s
                            in (None, s1\<lparr>worker_data := AList.update (worker, d) w_data (worker_data s1)\<rparr>)))))
      | _ \<Rightarrow> (Some UnpackError, s))"

definition handle_mqtt_message_broker_status :: "mqtt_message \<Rightarrow> broker_state \<Rightarrow> exn option \<times> broker_state" where
  "handle_mqtt_message_broker_status message s =
     (case split_max (CHR ''/'') 2 (topic message) of
        [x, broker, y] \<Rightarrow>
          (case py_int (payload message) of
             Inl e \<Rightarrow> (Some e, s)
           | Inr status \<Rightarrow>
               (case map_of (broker_status s) broker of
                  None \<Rightarrow>
                    if status \<ge> 1 then
                      (None, s\<lparr>broker_status := AList.update broker \<lparr>BrokerStatus.online = True\<rparr> (broker_status s)\<rparr>)
                    else (None, s)
                | Some broker_status_data \<Rightarrow>
                    if status < 1 \<and> BrokerStatus.online broker_status_data then
                      (None, (logger Warning (''Marking broker as offline: '' @ broker) [] s)
                               \<lparr>broker_status :=
                                  AList.update broker (broker_status_data\<lparr>BrokerStatus.online := False\<rparr>) (broker_status s)\<rparr>)
                    else if status \<ge> 1 \<and> \<not> BrokerStatus.online broker_status_data then
                      (None, (logger Info (''Marking broker as online: '' @ broker) [] s)
                               \<lparr>broker_status :=
                                  AList.update broker (broker_status_data\<lparr>BrokerStatus.online := True\<rparr>) (broker_status s)\<rparr>)
                    else (None, s)))
      | _ \<Rightarrow> (Some UnpackError, s))"

text \<open>A sequence of broker-status messages, handled one after the other.\<close>

fun handle_broker_status_messages :: "mqtt_message list \<Rightarrow> broker_state \<Rightarrow> broker_state" where
  "handle_broker_status_messages [] s = s"
| "handle_broker_status_messages (message # rest) s =
     handle_broker_status_messages rest (snd (handle_mqtt_message_broker_status message s))"

subsection \<open>Reachable states\<close>

text \<open>
  The states the process can be in: the empty stores at start, then any interleaving of the
  callbacks and the two handlers, each run to its end, with any message, request and decoder.
\<close>

inductive reachable :: "config \<Rightarrow> broker_state \<Rightarrow> bool" for cfg :: config where
  start: "reachable cfg initial_state"
| connect: "reachable cfg s \<Longrightarrow> reachable cfg (handle_mqtt_connect cfg s)"
| metrics: "reachable cfg s \<Longrightarrow> reachable cfg (snd (handle_mqtt_message_metrics cfg message s))"
| worker_status:
    "reachable cfg s \<Longrightarrow> reachable cfg (snd (handle_mqtt_message_worker_status message s))"
| data:
    "reachable cfg s \<Longrightarrow> reachable cfg (snd (handle_mqtt_message_data cfg json_loads message s))"
| broker_status:
    "reachable cfg s \<Longrightarrow> reachable cfg (snd (handle_mqtt_message_broker_status message s))"
| v1: "reachable cfg s \<Longrightarrow> reachable cfg (snd (wg_api_v1_key_exchange cfg body s))"
| v2: "reachable cfg s \<Longrightarrow> reachable cfg (snd (wg_api_v2_key_exchange cfg body s))"

subsection \<open>Observations on the stores\<close>

text \<open>
  Read-only views used to state the properties. \<open>worker_is_online\<close> is the collection's
  \<^verbatim>\<open>is_online(worker)\<close>; \<open>stored_metric\<close> is \<^verbatim>\<open>domain_metrics[domain][metric]\<close> of a worker, if
  recorded; \<open>eligible c d w p\<close> says that worker \<open>w\<close> is online and has \<open>p\<close> recorded as its
  \<^verbatim>\<open>connected_peers\<close> for domain \<open>d\<close>; \<open>broker_known\<close> says that the broker has an entry;
  \<open>topic_id\<close> is the second of the three parts the status callbacks split a topic into.
\<close>

definition worker_is_online :: "WorkerMetricsCollection \<Rightarrow> string \<Rightarrow> bool" where
  "worker_is_online c w = (case map_of c w of None \<Rightarrow> False | Some m \<Rightarrow> is_online m)"

definition stored_metric :: "WorkerMetricsCollection \<Rightarrow> string \<Rightarrow> string \<Rightarrow> string \<Rightarrow> int option" where
  "stored_metric c w d metric =
     (case map_of c w of None \<Rightarrow> None | Some m \<Rightarrow> map_of (get_domain_metrics m d) metric)"

definition eligible :: "WorkerMetricsCollection \<Rightarrow> string \<Rightarrow> string \<Rightarrow> int \<Rightarrow> bool" where
  "eligible c d w p =
     (case map_of c w of
        None \<Rightarrow> False
      | Some m \<Rightarrow> WorkerMetrics.online m
                  \<and> map_of (get_domain_metrics m d) CONNECTED_PEERS_METRIC = Some p)"

definition broker_known :: "broker_state \<Rightarrow> string \<Rightarrow> bool" where
  "broker_known s b = (map_of (broker_status s) b \<noteq> None)"

definition topic_id :: "mqtt_message \<Rightarrow> string option" where
  "topic_id message =
     (case split_max (CHR ''/'') 2 (topic message) of [x, i, y] \<Rightarrow> Some i | _ \<Rightarrow> None)"

subsection \<open>Example inputs\<close>

text \<open>
  One configured domain; a valid key; a key-exchange request for it. \<open>ex_state\<close> is the state
  after the broker connected and a worker \<^verbatim>\<open>gw1\<close> announced itself online with 10 peers in
  \<^verbatim>\<open>ffda\<close>, on topics whose second part is the worker; \<open>ex_state_broker\<close> is that state after one
  broker announced itself online, and \<open>ex_state_brokers\<close> after three brokers did and the third
  went offline again. \<open>ex_payload\<close> is a complete worker-data document and
  \<open>ex_json_loads\<close> decodes it.
\<close>

definition ex_cfg :: config where
  "ex_cfg = \<lparr>domains = [''ffda''], hostname = ''broker1'',
              broker_url = ''mqtt.example'', broker_port = 1883\<rparr>"

definition ex_key :: string where
  "ex_key = ''xTIBA5rboUvnH4htodjb6e697QjLERt1NAB4mZqp8Dg=''"

definition ex_body :: "exn + json" where
  "ex_body =
     Inr (JDict [(''public_key'', PyStr ex_key (Inl InvalidLiteral)),
                 (''domain'', PyStr ''ffda'' (Inl InvalidLiteral))])"

definition ex_state :: broker_state where
  "ex_state =
     snd (handle_mqtt_message_metrics ex_cfg
            \<lparr>topic = ''wireguard-metrics/ffda/gw1/connected_peers'', payload = ''10''\<rparr>
       (snd (handle_mqtt_message_worker_status
            \<lparr>topic = ''wireguard-worker/gw1/status'', payload = ''1''\<rparr>
         (handle_mqtt_connect ex_cfg initial_state))))"

definition ex_state_broker :: broker_state where
  "ex_state_broker =
     snd (handle_mqtt_message_broker_status
            \<lparr>topic = ''wireguard-broker/broker1/status'', payload = ''1''\<rparr> ex_state)"

definition ex_state_brokers :: broker_state where
  "ex_state_brokers =
     handle_broker_status_messages
       [\<lparr>topic = ''wireguard-broker/broker1/status'', payload = ''1''\<rparr>,
        \<lparr>topic = ''wireguard-broker/broker2/status'', payload = ''1''\<rparr>,
        \<lparr>topic = ''wireguard-broker/broker3/status'', payload = ''1''\<rparr>,
        \<lparr>topic = ''wireguard-broker/broker3/status'', payload = ''0''\<rparr>]
       ex_state"

definition ex_payload :: string where
  \<open>ex_payload = ''{"ExternalAddress": "gw1.example", "Port": 51820, "LinkAddress": "fe80::1/64", "PublicKey": "xTIBA5rboUvnH4htodjb6e697QjLERt1NAB4mZqp8Dg="}''\<close>

definition ex_worker_data :: "(string \<times> pyval) list" where
  "ex_worker_data =
     [(''ExternalAddress'', PyStr ''gw1.example'' (Inl InvalidLiteral)), (''Port'', PyInt 51820),
      (''LinkAddress'', PyStr ''fe80::1/64'' (Inl InvalidLiteral)),
      (''PublicKey'', PyStr ex_key (Inl InvalidLiteral))]"

definition ex_json_loads :: "string \<Rightarrow> exn + json" where
  "ex_json_loads p = (if p = ex_payload then Inr (JDict ex_worker_data) else Inl JSONDecodeError)"

definition ex_metrics :: WorkerMetricsCollection where
  "ex_metrics =
     [(''gw1'', \<lparr>WorkerMetrics.online = True, domain_metrics = [(''ffda'', [(''connected_peers'', 10)])]\<rparr>),
      (''gw4'', \<lparr>WorkerMetrics.online = True, domain_metrics = [(''ffda'', [(''connected_peers'', 7)])]\<rparr>),
      (''gw3'', \<lparr>WorkerMetrics.online = False, domain_metrics = [(''ffda'', [(''connected_peers'', 1)])]\<rparr>),
      (''gw2'', \<lparr>WorkerMetrics.online = True, domain_metrics = [(''ffda'', [(''connected_peers'', 7)])]\<rparr>),
      (''gw5'', \<lparr>WorkerMetrics.online = True, domain_metrics = [(''other'', [(''connected_peers'', 0)])]\<rparr>)]"

section \<open>Properties\<close>

subsection \<open>The public-key validator\<close>

lemma match_repeat_iff:
  "match_repeat cls n s = Some rest \<longleftrightarrow>
     n \<le> length s \<and> list_all (in_set cls) (take n s) \<and> rest = drop n s"
proof (induction n arbitrary: s)
  case 0
  then show ?case by auto
next
  case (Suc n)
  then show ?case by (cases s) auto
qed

lemma match_repeat_eq:
  "match_repeat cls n s =
     (if n \<le> length s \<and> list_all (in_set cls) (take n s) then Some (drop n s) else None)"
  using match_repeat_iff [of cls n s] by (cases "match_repeat cls n s") auto

lemma in_set_Single: "in_set (map Single xs) c \<longleftrightarrow> c \<in> set xs"
  by (induction xs) (auto simp: in_set_def)

lemma in_set_base64: "in_set base64_set c \<longleftrightarrow> base64_char c"
  by (auto simp: in_set_def base64_set_def base64_char_def)

lemma take1_drop: "n < length k \<Longrightarrow> take (Suc 0) (drop n k) = [k ! n]"
  by (simp add: Cons_nth_drop_Suc [symmetric])

lemma re_match_WG:
  "re_match WG_PUBKEY_PATTERN k \<longleftrightarrow>
     44 \<le> length k \<and> list_all base64_char (take 42 k) \<and> k ! 42 \<in> set ''AEIMQUYcgkosw480''
     \<and> k ! 43 = CHR ''='' \<and> at_dollar (drop 44 k)"
proof -
  have a: "in_set (map Single ''AEIMQUYcgkosw480'') = (\<lambda>c. c \<in> set ''AEIMQUYcgkosw480'')"
    by (rule ext) (rule in_set_Single)
  have b: "in_set [Single (CHR ''='')] = (\<lambda>c. c = CHR ''='')"
    by (rule ext) (simp add: in_set_def)
  have c: "in_set base64_set = base64_char"
    by (rule ext) (rule in_set_base64)
  show ?thesis
    unfolding re_match_def WG_PUBKEY_PATTERN_def match_items.simps match_repeat_eq a b c
    by (auto simp: take1_drop split: if_splits)
qed

lemma drop_44_newline:
  "drop 44 k = [CHR 0x0A] \<longleftrightarrow> length k = 45 \<and> last k = CHR 0x0A"
proof
  assume h: "drop 44 k = [CHR 0x0A]"
  then have "length (drop 44 k) = 1" by simp
  then have l: "length k = 45" by simp
  then have "k \<noteq> []" by auto
  then have "last k = last (drop 44 k)" using l by simp
  with h l show "length k = 45 \<and> last k = CHR 0x0A" by simp
next
  assume h: "length k = 45 \<and> last k = CHR 0x0A"
  then have "k \<noteq> []" by auto
  then have "k = butlast k @ [last k]" by simp
  moreover have "length (butlast k) = 44" using h by simp
  ultimately have "drop 44 k = [last k]"
    by (metis append_eq_conv_conj)
  with h show "drop 44 k = [CHR 0x0A]" by simp
qed

text \<open>
  What the matcher run on the compiled pattern accepts: the strings of the written-out
  language, and also each of them followed by one final newline, which \<^verbatim>\<open>$\<close> lets through.
\<close>

lemma re_match_iff:
  "re_match WG_PUBKEY_PATTERN k \<longleftrightarrow>
     matches_wg_regex k \<or> (k \<noteq> [] \<and> last k = CHR 0x0A \<and> matches_wg_regex (butlast k))"
proof (cases "length k = 44")
  case True
  then show ?thesis
    by (auto simp: re_match_WG matches_wg_regex_def at_dollar_def)
next
  case False
  then show ?thesis
    by (auto simp: re_match_WG matches_wg_regex_def at_dollar_def
          drop_44_newline nth_butlast take_butlast)
qed

lemma is_valid_wg_pubkey_accepts:
  "is_valid_wg_pubkey k =
     (if matches_wg_regex k \<or> (k \<noteq> [] \<and> last k = CHR 0x0A \<and> matches_wg_regex (butlast k))
      then Inr k
      else Inl (ValueError (''Not a valid Wireguard public key: '' @ k @ ''.'')))"
  by (simp add: is_valid_wg_pubkey_def re_match_iff)

lemma is_valid_wg_pubkey_matching:
  "matches_wg_regex k \<Longrightarrow> is_valid_wg_pubkey k = Inr k"
  by (simp add: is_valid_wg_pubkey_accepts)

lemma ex_key_matches: "matches_wg_regex ex_key"
  by (simp add: ex_key_def matches_wg_regex_def base64_char_def)

text \<open>
  Claim C7 says that \<open>is_valid_wg_pubkey\<close> returns \<open>k\<close> if and only if \<open>k\<close> matches
  \<^verbatim>\<open>^[A-Za-z0-9+/]{42}[AEIMQUYcgkosw480]=$\<close>, a pattern of 44 characters, and raises for every
  other string. On the code it does not raise for a valid key followed by a newline: the
  string of 45 characters is no key of that shape, yet the validator returns it unchanged, and
  the v1 handler answers 200 and publishes it, newline included.
\<close>

theorem is_valid_wg_pubkey_trailing_newline:
  "\<not> matches_wg_regex (ex_key @ [CHR 0x0A])
   \<and> is_valid_wg_pubkey (ex_key @ [CHR 0x0A]) = Inr (ex_key @ [CHR 0x0A])
   \<and> wg_api_v1_key_exchange ex_cfg
        (Inr (JDict [(''public_key'', PyStr (ex_key @ [CHR 0x0A]) (Inl InvalidLiteral)),
                     (''domain'', PyStr ''ffda'' (Inl InvalidLiteral))])) initial_state
      = ((MessageOK, 200),
         initial_state\<lparr>events :=
           [Log Info (''wg_api_v1_key_exchange: Domain: ffda, Key:'' @ ex_key @ [CHR 0x0A]) [],
            Publish ''wireguard/ffda/all'' (ex_key @ [CHR 0x0A]) 0 False]\<rparr>)"
proof -
  have n: "\<not> matches_wg_regex (ex_key @ [CHR 0x0A])"
    by (simp add: matches_wg_regex_def ex_key_def)
  have v: "is_valid_wg_pubkey (ex_key @ [CHR 0x0A]) = Inr (ex_key @ [CHR 0x0A])"
    using ex_key_matches by (simp add: is_valid_wg_pubkey_accepts)
  show ?thesis
    using n v
    by (simp add: wg_api_v1_key_exchange_def parse_request_def KeyExchange_from_dict_def
        dict_get_def ex_cfg_def is_valid_domain_def initial_state_def logger_def publish_def
        Let_def)
qed

subsection \<open>Evaluation and frame lemmas\<close>

declare string_of_nat.simps [simp del]

lemmas py_int_eval = py_int_def strip_def is_space_def unsigned_int_def is_digit_def digit_val_def

lemma logger_fields [simp]:
  "worker_metrics (logger l t a s) = worker_metrics s"
  "worker_data (logger l t a s) = worker_data s"
  "broker_status (logger l t a s) = broker_status s"
  "events (logger l t a s) = events s @ [Log l t a]"
  by (simp_all add: logger_def)

lemma publish_fields [simp]:
  "worker_metrics (publish t p q r s) = worker_metrics s"
  "worker_data (publish t p q r s) = worker_data s"
  "broker_status (publish t p q r s) = broker_status s"
  "events (publish t p q r s) = events s @ [Publish t p q r]"
  by (simp_all add: publish_def)

lemma subscribe_fields [simp]:
  "worker_metrics (subscribe t s) = worker_metrics s"
  "worker_data (subscribe t s) = worker_data s"
  "broker_status (subscribe t s) = broker_status s"
  "events (subscribe t s) = events s @ [Subscribe t]"
  by (simp_all add: subscribe_def)

lemma partition_at_no_sep:
  "sep \<notin> set a \<Longrightarrow> partition_at sep (a @ sep # b) = Some (a, b)"
  by (induction a) auto

lemma split_max_three:
  assumes "CHR ''/'' \<notin> set a" and "CHR ''/'' \<notin> set b"
  shows "split_max (CHR ''/'') 2 (a @ ''/'' @ b @ ''/'' @ r) = [a, b, r]"
  using assms by (simp add: eval_nat_numeral partition_at_no_sep)

lemma split_max_four:
  assumes "CHR ''/'' \<notin> set a" and "CHR ''/'' \<notin> set b" and "CHR ''/'' \<notin> set c"
  shows "split_max (CHR ''/'') 3 (a @ ''/'' @ b @ ''/'' @ c @ ''/'' @ r) = [a, b, c, r]"
  using assms by (simp add: eval_nat_numeral partition_at_no_sep)

lemma BrokerStatus_update [simp]:
  "(b::BrokerStatus)\<lparr>BrokerStatus.online := v\<rparr> = \<lparr>BrokerStatus.online = v\<rparr>"
  by (cases b) simp

subsection \<open>The worker metrics store\<close>

lemma get_lookup:
  "get c w = (m, c1) \<Longrightarrow>
     map_of c1 w = Some m \<and> (\<forall>w'. w' \<noteq> w \<longrightarrow> map_of c1 w' = map_of c w')"
  by (auto simp: get_def map_add_def split: option.splits)

lemma get_value:
  "get c w = (m, c1) \<Longrightarrow>
     (case map_of c w of None \<Rightarrow> m = \<lparr>WorkerMetrics.online = False, domain_metrics = []\<rparr> | Some m' \<Rightarrow> m = m')"
  by (auto simp: get_def split: option.splits)

lemma get_idem: "get c w = (m, c1) \<Longrightarrow> get c1 w = (m, c1)"
  by (auto simp: get_def map_add_def split: option.splits)

lemma set_online_lookup:
  "map_of (set_online c w) w' =
     (if w' = w then Some ((fst (get c w))\<lparr>WorkerMetrics.online := True\<rparr>) else map_of c w')"
  by (auto simp: set_online_def update_conv' get_def map_add_def split: prod.splits option.splits)

lemma set_offline_lookup:
  "map_of (set_offline c w) w' =
     (if w' = w then Some ((fst (get c w))\<lparr>WorkerMetrics.online := False\<rparr>) else map_of c w')"
  by (auto simp: set_offline_def update_conv' get_def map_add_def split: prod.splits option.splits)

lemma stored_metric_update:
  "stored_metric (update c w d metric v) w d metric = Some v"
  by (auto simp: stored_metric_def update_def update_conv' get_domain_metrics_def
      split: prod.splits option.splits)

lemma current_peers_domain_get:
  "get c w = (m, c1) \<Longrightarrow>
     current_peers_domain m d
       = (case stored_metric c w d CONNECTED_PEERS_METRIC of None \<Rightarrow> 0 | Some v \<Rightarrow> v)"
  by (auto simp: get_def current_peers_domain_def stored_metric_def get_domain_metrics_def
      split: option.splits)

lemma update_after_get:
  "get c w = (m, c1) \<Longrightarrow> update c1 w d metric v = update c w d metric v"
  by (auto simp: update_def get_def map_add_def split: option.splits)

subsection \<open>Worker selection\<close>

lemma set_candidates:
  "set (candidates c d) = {(p, w). \<exists>m. (w, m) \<in> set c \<and> is_online m
      \<and> map_of (get_domain_metrics m d) CONNECTED_PEERS_METRIC = Some p}"
proof (induction c)
  case Nil
  then show ?case by (simp add: candidates_def)
next
  case (Cons e c)
  then show ?case
    by (cases e) (auto simp: candidates_def candidate_def split: option.splits)
qed

lemma candidates_eligible:
  "distinct (map fst c) \<Longrightarrow> (p, w) \<in> set (candidates c d) \<longleftrightarrow> eligible c d w p"
proof -
  assume dist: "distinct (map fst c)"
  have "eligible c d w p \<longleftrightarrow>
        (\<exists>m. map_of c w = Some m \<and> is_online m
           \<and> map_of (get_domain_metrics m d) CONNECTED_PEERS_METRIC = Some p)"
    by (simp add: eligible_def is_online_def split: option.splits)
  also have "\<dots> \<longleftrightarrow> (p, w) \<in> set (candidates c d)"
    by (simp add: set_candidates map_of_eq_Some_iff [OF dist])
  finally show ?thesis by simp
qed

lemma sort_head_least:
  fixes xs :: "('a::linorder) list"
  assumes "sort xs = x # rest"
  shows "x \<in> set xs \<and> (\<forall>y\<in>set xs. x \<le> y)"
proof -
  have "sorted (x # rest)" using assms sorted_sort by metis
  moreover have "set (x # rest) = set xs" using assms set_sort by metis
  ultimately show ?thesis by auto
qed

lemma get_best_worker_cases:
  "(candidates c d = [] \<and> get_best_worker c d = (None, 0, 0))
   \<or> (\<exists>p w rest diff. sort (candidates c d) = (p, w) # rest \<and> get_best_worker c d = (Some w, diff, p))"
proof (cases "sort (candidates c d)")
  case Nil
  then have "set (candidates c d) = {}" using set_sort by (metis list.set(1))
  then show ?thesis using Nil by (simp add: get_best_worker_def)
next
  case (Cons e rest)
  then show ?thesis
    by (cases e) (auto simp: get_best_worker_def split: list.splits prod.splits)
qed

text \<open>
  Claim C1. For every domain \<open>d\<close> and every store (a dictionary: no worker id twice),
  \<open>get_best_worker\<close> considers exactly the eligible workers, those that are online and have a
  recorded \<^verbatim>\<open>connected_peers\<close> for \<open>d\<close>: with none it returns \<^verbatim>\<open>(None, 0, 0)\<close>; with at least one
  it returns an eligible worker together with its peers, and every eligible worker has more
  peers, or the same peers and a worker id that is not smaller. A worker whose online flag is
  false is never returned.
\<close>

theorem get_best_worker_minimum:
  assumes "distinct (map fst c)"
  shows "(\<not> (\<exists>w p. eligible c d w p) \<longrightarrow> get_best_worker c d = (None, 0, 0))
    \<and> ((\<exists>w p. eligible c d w p) \<longrightarrow> (\<exists>w diff cur. get_best_worker c d = (Some w, diff, cur)))
    \<and> (\<forall>w diff cur. get_best_worker c d = (Some w, diff, cur) \<longrightarrow>
          eligible c d w cur
          \<and> (\<forall>w' p'. eligible c d w' p' \<longrightarrow> cur < p' \<or> (cur = p' \<and> w \<le> w')))"
proof -
  note ce = candidates_eligible [OF assms]
  consider (none) "candidates c d = []" "get_best_worker c d = (None, 0, 0)"
    | (some) p w rest diff where "sort (candidates c d) = (p, w) # rest"
        "get_best_worker c d = (Some w, diff, p)"
    using get_best_worker_cases [of c d] by blast
  then show ?thesis
  proof cases
    case none
    have "\<not> eligible c d w p" for w p
      using ce [of p w d] none(1) by simp
    then show ?thesis using none(2) by simp
  next
    case some
    from sort_head_least [OF some(1)]
    have mem: "(p, w) \<in> set (candidates c d)"
      and least: "\<forall>y\<in>set (candidates c d). (p, w) \<le> y" by auto
    have e: "eligible c d w p" using ce mem by simp
    have m: "p < p' \<or> (p = p' \<and> w \<le> w')" if "eligible c d w' p'" for w' p'
    proof -
      have "(p', w') \<in> set (candidates c d)" using ce that by simp
      then have "(p, w) \<le> (p', w')" using least by blast
      then show ?thesis by (auto simp: less_eq_prod_def)
    qed
    show ?thesis using some(2) e m by auto
  qed
qed

lemma ex_best: "get_best_worker ex_metrics ''ffda'' = (Some ''gw2'', 0, 7)"
  by (simp add: get_best_worker_def ex_metrics_def candidates_def List.map_filter_def candidate_def
      is_online_def get_domain_metrics_def CONNECTED_PEERS_METRIC_def less_eq_prod_def insort_key.simps)

theorem get_best_worker_minimum_witness:
  "distinct (map fst ex_metrics)
   \<and> get_best_worker ex_metrics ''ffda'' = (Some ''gw2'', 0, 7)
   \<and> eligible ex_metrics ''ffda'' ''gw2'' 7 \<and> eligible ex_metrics ''ffda'' ''gw4'' 7
   \<and> eligible ex_metrics ''ffda'' ''gw1'' 10 \<and> \<not> eligible ex_metrics ''ffda'' ''gw3'' 1
   \<and> ''gw2'' \<le> ''gw4''"
  using get_best_worker_minimum [of ex_metrics "''ffda''"] ex_best
  by (simp add: ex_metrics_def eligible_def get_domain_metrics_def CONNECTED_PEERS_METRIC_def)

subsection \<open>Example states\<close>

lemma ex_state_stores:
  "worker_metrics ex_state =
     [(''gw1'', \<lparr>WorkerMetrics.online = True,
                 domain_metrics = [(''ffda'', [(''connected_peers'', 10)])]\<rparr>)]"
  "worker_data ex_state = []"
  "broker_status ex_state = []"
  by (simp_all add: ex_state_def handle_mqtt_message_metrics_def handle_mqtt_message_worker_status_def
      handle_mqtt_connect_def initial_state_def ex_cfg_def decode_def is_valid_domain_def
      eval_nat_numeral py_int_eval get_def set_online_def is_online_def update_def
      get_domain_metrics_def Let_def)

lemma ex_state_broker_stores:
  "worker_metrics ex_state_broker = worker_metrics ex_state"
  "worker_data ex_state_broker = []"
  "broker_status ex_state_broker = [(''broker1'', \<lparr>BrokerStatus.online = True\<rparr>)]"
  by (simp_all add: ex_state_broker_def handle_mqtt_message_broker_status_def ex_state_stores
      eval_nat_numeral py_int_eval)

lemma ex_parse:
  "parse_request ex_cfg ex_body = Inr \<lparr>KeyExchange.public_key = ex_key, domain = ''ffda''\<rparr>"
  by (simp add: parse_request_def ex_body_def KeyExchange_from_dict_def dict_get_def
      is_valid_wg_pubkey_def re_match_iff matches_wg_regex_def base64_char_def
      ex_key_def ex_cfg_def is_valid_domain_def)

lemma ex_best_worker:
  "get_best_worker (worker_metrics ex_state) ''ffda'' = (Some ''gw1'', 0, 10)"
  by (simp add: ex_state_stores get_best_worker_def candidates_def candidate_def
      List.map_filter_def is_online_def get_domain_metrics_def CONNECTED_PEERS_METRIC_def)

subsection \<open>Worker status messages\<close>

text \<open>
  Claim C2, as amended. For every message on a topic \<^verbatim>\<open><prefix>/<w>/<rest>\<close>, where \<open>prefix\<close> and
  \<open>w\<close> contain no \<^verbatim>\<open>/\<close>, and every integer payload, the worker-status callback returns normally
  and applies the status to \<open>w\<close>, the second \<^verbatim>\<open>/\<close>-separated part of the topic: afterwards \<open>w\<close> is
  online if and only if the payload is at least 1, and no other worker's record has changed.
\<close>

theorem worker_status_applies:
  assumes "CHR ''/'' \<notin> set prefix" and "CHR ''/'' \<notin> set w"
    and "topic message = prefix @ ''/'' @ w @ ''/'' @ rest"
    and "py_int (payload message) = Inr status"
  shows "fst (handle_mqtt_message_worker_status message s) = None
    \<and> worker_is_online (worker_metrics (snd (handle_mqtt_message_worker_status message s))) w
        = (status \<ge> 1)
    \<and> (\<forall>w'. w' \<noteq> w \<longrightarrow>
          map_of (worker_metrics (snd (handle_mqtt_message_worker_status message s))) w'
            = map_of (worker_metrics s) w')"
proof -
  obtain m c1 where g: "get (worker_metrics s) w = (m, c1)" by (cases "get (worker_metrics s) w")
  have sp: "split_max (CHR ''/'') 2 (topic message) = [prefix, w, rest]"
    using split_max_three [OF assms(1,2), of rest] assms(3) by simp
  from get_lookup [OF g] have l1: "map_of c1 w = Some m"
    and l2: "\<And>w'. w' \<noteq> w \<Longrightarrow> map_of c1 w' = map_of (worker_metrics s) w'" by auto
  have gi: "get c1 w = (m, c1)" using get_idem [OF g] .
  show ?thesis
    using l1 l2 gi
    by (auto simp: handle_mqtt_message_worker_status_def assms(4) sp g worker_is_online_def
        set_online_lookup set_offline_lookup is_online_def)
qed

theorem worker_status_applies_witness:
  "CHR ''/'' \<notin> set ''wireguard-worker'' \<and> CHR ''/'' \<notin> set ''gw1''
   \<and> py_int ''1'' = Inr 1
   \<and> worker_is_online (worker_metrics (snd (handle_mqtt_message_worker_status
        \<lparr>topic = ''wireguard-worker/gw1/status'', payload = ''1''\<rparr> initial_state))) ''gw1''"
  using worker_status_applies [of "''wireguard-worker''" "''gw1''"
      "\<lparr>topic = ''wireguard-worker/gw1/status'', payload = ''1''\<rparr>" "''status''" 1 initial_state]
  by (simp add: py_int_eval)

text \<open>
  On the topic \<^verbatim>\<open>wireguard/worker/gw1/status\<close> of the specification's scheme the second part is
  the literal \<^verbatim>\<open>worker\<close>: the status goes to a worker of that name, and \<^verbatim>\<open>gw1\<close> is not online
  afterwards.
\<close>

theorem worker_status_topic_counterexample:
  "worker_metrics (snd (handle_mqtt_message_worker_status
       \<lparr>topic = TOPIC_WORKER_STATUS ''gw1'', payload = ''1''\<rparr> initial_state))
     = [(''worker'', \<lparr>WorkerMetrics.online = True, domain_metrics = []\<rparr>)]
   \<and> \<not> worker_is_online (worker_metrics (snd (handle_mqtt_message_worker_status
       \<lparr>topic = TOPIC_WORKER_STATUS ''gw1'', payload = ''1''\<rparr> initial_state))) ''gw1''"
  by (simp add: handle_mqtt_message_worker_status_def TOPIC_WORKER_STATUS_def initial_state_def
      eval_nat_numeral py_int_eval get_def set_online_def is_online_def logger_def
      worker_is_online_def)

subsection \<open>The v2 handler after selection\<close>

lemma v2_serve_metrics:
  "worker_metrics (snd (v2_serve w d diff cur s))
     = update (worker_metrics s) w d CONNECTED_PEERS_METRIC
         ((case stored_metric (worker_metrics s) w d CONNECTED_PEERS_METRIC of
             None \<Rightarrow> 0 | Some v \<Rightarrow> v) + online_brokers (broker_status s))"
proof -
  obtain m c1 where g: "get (worker_metrics s) w = (m, c1)" by (cases "get (worker_metrics s) w")
  show ?thesis
    by (simp add: v2_serve_def g Let_def update_after_get [OF g]
        current_peers_domain_get [OF g] split: option.splits)
qed

lemma v2_serve_events:
  "\<exists>rest. events (snd (v2_serve w d diff cur s)) = events s @ rest \<and> filter is_publish rest = []"
  by (cases "get (worker_metrics s) w")
     (auto simp: v2_serve_def Let_def split: option.splits)

lemma v2_serve_response:
  "fst (v2_serve w d diff cur s) =
     (case map_of (worker_data s) (w, d) of
        None \<Rightarrow> (ErrorMessage ''could not get gateway data'', 500)
      | Some w_data \<Rightarrow>
          (Endpoint (external_address w_data) (string_of_int (port w_data))
             [link_address w_data] (WorkerData.public_key w_data), 200))"
  by (cases "get (worker_metrics s) w")
     (auto simp: v2_serve_def Let_def split: option.splits)

lemma v2_after_selection:
  assumes "parse_request cfg body = Inr data"
    and "get_best_worker (worker_metrics s) (domain data) = (Some w, diff, cur)"
  shows "wg_api_v2_key_exchange cfg body s =
      v2_serve w (domain data) diff cur
        (publish (''wireguard/'' @ domain data @ ''/all'') (KeyExchange.public_key data) 0 False
          (logger Info (''wg_api_v2_key_exchange: Domain: '' @ domain data @ '', Key:''
                        @ KeyExchange.public_key data) [] s))"
  using assms by (simp add: wg_api_v2_key_exchange_def Let_def)

lemma v2_metric_after:
  assumes "parse_request cfg body = Inr data"
    and "get_best_worker (worker_metrics s) (domain data) = (Some w, diff, cur)"
  shows "stored_metric (worker_metrics (snd (wg_api_v2_key_exchange cfg body s))) w (domain data)
           CONNECTED_PEERS_METRIC
     = Some ((case stored_metric (worker_metrics s) w (domain data) CONNECTED_PEERS_METRIC of
                None \<Rightarrow> 0 | Some v \<Rightarrow> v)
             + online_brokers (broker_status s))"
  by (simp add: v2_after_selection [OF assms] v2_serve_metrics stored_metric_update)

lemma ex_v2_response:
  "fst (wg_api_v2_key_exchange ex_cfg ex_body ex_state_broker)
     = (ErrorMessage ''could not get gateway data'', 500)"
  "fst (wg_api_v2_key_exchange ex_cfg ex_body ex_state)
     = (ErrorMessage ''could not get gateway data'', 500)"
proof -
  have g: "get_best_worker (worker_metrics ex_state)
             (domain \<lparr>KeyExchange.public_key = ex_key, domain = ''ffda''\<rparr>) = (Some ''gw1'', 0, 10)"
    by (simp add: ex_best_worker)
  have gb: "get_best_worker (worker_metrics ex_state_broker)
             (domain \<lparr>KeyExchange.public_key = ex_key, domain = ''ffda''\<rparr>) = (Some ''gw1'', 0, 10)"
    by (simp add: ex_state_broker_stores ex_best_worker)
  show "fst (wg_api_v2_key_exchange ex_cfg ex_body ex_state_broker)
     = (ErrorMessage ''could not get gateway data'', 500)"
    by (simp add: v2_after_selection [OF ex_parse gb] v2_serve_response ex_state_broker_stores)
  show "fst (wg_api_v2_key_exchange ex_cfg ex_body ex_state)
     = (ErrorMessage ''could not get gateway data'', 500)"
    by (simp add: v2_after_selection [OF ex_parse g] v2_serve_response ex_state_stores)
qed

lemma online_brokers_length:
  "online_brokers bs = int (length (filter (\<lambda>e. BrokerStatus.online (snd e)) bs))"
  by (induction bs) (auto simp: online_brokers_def)

text \<open>
  Claim C4. After a v2 request with a valid body for which worker \<open>w\<close> was chosen for the
  request's domain, the stored \<^verbatim>\<open>connected_peers\<close> of \<open>w\<close> for that domain is the value stored
  before the request (0 if there was none) plus \<open>n\<close>, the number of entries of the broker
  liveness store whose online flag is set.
\<close>

theorem v2_interpolation:
  assumes "parse_request cfg body = Inr data"
    and "get_best_worker (worker_metrics s) (domain data) = (Some w, diff, cur)"
  shows "stored_metric (worker_metrics (snd (wg_api_v2_key_exchange cfg body s))) w (domain data)
           CONNECTED_PEERS_METRIC
     = Some ((case stored_metric (worker_metrics s) w (domain data) CONNECTED_PEERS_METRIC of
                None \<Rightarrow> 0 | Some v \<Rightarrow> v)
             + int (length (filter (\<lambda>e. BrokerStatus.online (snd e)) (broker_status s))))"
  using v2_metric_after [OF assms] by (simp add: online_brokers_length)

lemma ex_state_brokers_stores:
  "worker_metrics ex_state_brokers = worker_metrics ex_state"
  "worker_data ex_state_brokers = []"
  "broker_status ex_state_brokers =
     [(''broker1'', \<lparr>BrokerStatus.online = True\<rparr>),
      (''broker2'', \<lparr>BrokerStatus.online = True\<rparr>),
      (''broker3'', \<lparr>BrokerStatus.online = False\<rparr>)]"
  by (simp_all add: ex_state_brokers_def handle_mqtt_message_broker_status_def ex_state_stores
      eval_nat_numeral py_int_eval)

theorem v2_interpolation_witness:
  "parse_request ex_cfg ex_body = Inr \<lparr>KeyExchange.public_key = ex_key, domain = ''ffda''\<rparr>
   \<and> get_best_worker (worker_metrics ex_state_brokers) ''ffda'' = (Some ''gw1'', 0, 10)
   \<and> stored_metric (worker_metrics ex_state_brokers) ''gw1'' ''ffda'' CONNECTED_PEERS_METRIC = Some 10
   \<and> length (filter (\<lambda>e. BrokerStatus.online (snd e)) (broker_status ex_state_brokers)) = 2
   \<and> length (broker_status ex_state_brokers) = 3
   \<and> stored_metric (worker_metrics (snd (wg_api_v2_key_exchange ex_cfg ex_body ex_state_brokers)))
        ''gw1'' ''ffda'' CONNECTED_PEERS_METRIC = Some 12"
proof -
  have p: "parse_request ex_cfg ex_body = Inr \<lparr>KeyExchange.public_key = ex_key, domain = ''ffda''\<rparr>"
    by (rule ex_parse)
  have g: "get_best_worker (worker_metrics ex_state_brokers)
             (domain \<lparr>KeyExchange.public_key = ex_key, domain = ''ffda''\<rparr>) = (Some ''gw1'', 0, 10)"
    by (simp add: ex_state_brokers_stores ex_best_worker)
  have m: "stored_metric (worker_metrics ex_state_brokers) ''gw1'' ''ffda'' CONNECTED_PEERS_METRIC = Some 10"
    by (simp add: ex_state_brokers_stores ex_state_stores stored_metric_def get_domain_metrics_def
        CONNECTED_PEERS_METRIC_def)
  have n: "length (filter (\<lambda>e. BrokerStatus.online (snd e)) (broker_status ex_state_brokers)) = 2"
    "length (broker_status ex_state_brokers) = 3"
    by (simp_all add: ex_state_brokers_stores)
  from v2_interpolation [OF p g] m n p g show ?thesis by simp
qed

text \<open>
  Claim C6. For every request with a valid key and a configured domain: v1 logs, publishes the
  key to \<^verbatim>\<open>wireguard/<domain>/all\<close>, returns 200 and touches no store; v2 logs and publishes the
  same way before anything that follows from the selection (what v2 does afterwards adds events
  behind the publish, none of them a publish), so the key is published also when the selection
  finds no worker (400) and when the chosen worker has no endpoint record (500).
\<close>

theorem publish_before_selection:
  assumes "parse_request cfg body = Inr data"
  shows "wg_api_v1_key_exchange cfg body s =
      ((MessageOK, 200),
       s\<lparr>events := events s @
          [Log Info (''wg_api_v1_key_exchange: Domain: '' @ domain data @ '', Key:''
                     @ KeyExchange.public_key data) [],
           Publish (''wireguard/'' @ domain data @ ''/all'') (KeyExchange.public_key data) 0 False]\<rparr>)
    \<and> (\<exists>rest. events (snd (wg_api_v2_key_exchange cfg body s)) =
          events s @
          [Log Info (''wg_api_v2_key_exchange: Domain: '' @ domain data @ '', Key:''
                     @ KeyExchange.public_key data) [],
           Publish (''wireguard/'' @ domain data @ ''/all'') (KeyExchange.public_key data) 0 False]
          @ rest
        \<and> filter is_publish rest = [])
    \<and> (fst (get_best_worker (worker_metrics s) (domain data)) = None \<longrightarrow>
         fst (wg_api_v2_key_exchange cfg body s) =
           (ErrorMessage ''no gateway online for this domain, please check the domain value and try again later'', 400))
    \<and> (\<forall>w. fst (get_best_worker (worker_metrics s) (domain data)) = Some w
            \<and> map_of (worker_data s) (w, domain data) = None \<longrightarrow>
         fst (wg_api_v2_key_exchange cfg body s) = (ErrorMessage ''could not get gateway data'', 500))"
proof -
  let ?s2 = "publish (''wireguard/'' @ domain data @ ''/all'') (KeyExchange.public_key data) 0 False
      (logger Info (''wg_api_v2_key_exchange: Domain: '' @ domain data @ '', Key:''
                     @ KeyExchange.public_key data) [] s)"
  have v1: "wg_api_v1_key_exchange cfg body s =
      ((MessageOK, 200),
       s\<lparr>events := events s @
          [Log Info (''wg_api_v1_key_exchange: Domain: '' @ domain data @ '', Key:''
                     @ KeyExchange.public_key data) [],
           Publish (''wireguard/'' @ domain data @ ''/all'') (KeyExchange.public_key data) 0 False]\<rparr>)"
    using assms by (simp add: wg_api_v1_key_exchange_def Let_def logger_def publish_def)
  have v2: "wg_api_v2_key_exchange cfg body s =
      (case get_best_worker (worker_metrics s) (domain data) of
         (None, diff, cur) \<Rightarrow>
           ((ErrorMessage ''no gateway online for this domain, please check the domain value and try again later'', 400),
            logger Warning (''No worker online for domain '' @ domain data) [] ?s2)
       | (Some w, diff, cur) \<Rightarrow> v2_serve w (domain data) diff cur ?s2)"
    using assms by (auto simp: wg_api_v2_key_exchange_def Let_def split: prod.splits option.splits)
  have ev: "events ?s2 = events s @
          [Log Info (''wg_api_v2_key_exchange: Domain: '' @ domain data @ '', Key:''
                     @ KeyExchange.public_key data) [],
           Publish (''wireguard/'' @ domain data @ ''/all'') (KeyExchange.public_key data) 0 False]"
    by simp
  have wd: "worker_data ?s2 = worker_data s" by simp
  obtain bw diff cur where g: "get_best_worker (worker_metrics s) (domain data) = (bw, diff, cur)"
    by (cases "get_best_worker (worker_metrics s) (domain data)")
  have order: "\<exists>rest. events (snd (wg_api_v2_key_exchange cfg body s)) = events ?s2 @ rest
        \<and> filter is_publish rest = []"
  proof (cases bw)
    case None
    then show ?thesis by (simp add: v2 g)
  next
    case (Some w)
    then show ?thesis using v2_serve_events [of w "domain data" diff cur ?s2] by (simp add: v2 g)
  qed
  have no_worker: "bw = None \<Longrightarrow> fst (wg_api_v2_key_exchange cfg body s) =
           (ErrorMessage ''no gateway online for this domain, please check the domain value and try again later'', 400)"
    by (simp add: v2 g)
  have no_endpoint: "fst (wg_api_v2_key_exchange cfg body s) = (ErrorMessage ''could not get gateway data'', 500)"
    if "bw = Some w" "map_of (worker_data s) (w, domain data) = None" for w
    using that by (simp add: v2 g v2_serve_response wd)
  from order obtain rest where r: "events (snd (wg_api_v2_key_exchange cfg body s)) = events ?s2 @ rest"
    "filter is_publish rest = []" by blast
  have "events (snd (wg_api_v2_key_exchange cfg body s)) = events s @
          [Log Info (''wg_api_v2_key_exchange: Domain: '' @ domain data @ '', Key:''
                     @ KeyExchange.public_key data) [],
           Publish (''wireguard/'' @ domain data @ ''/all'') (KeyExchange.public_key data) 0 False]
          @ rest"
    using r(1) ev by simp
  with r(2) v1 no_worker no_endpoint g show ?thesis by auto
qed

theorem publish_before_selection_witness:
  "parse_request ex_cfg ex_body = Inr \<lparr>KeyExchange.public_key = ex_key, domain = ''ffda''\<rparr>
   \<and> fst (wg_api_v1_key_exchange ex_cfg ex_body initial_state) = (MessageOK, 200)
   \<and> events (snd (wg_api_v1_key_exchange ex_cfg ex_body initial_state))
       = [Log Info (''wg_api_v1_key_exchange: Domain: ffda, Key:'' @ ex_key) [],
          Publish ''wireguard/ffda/all'' ex_key 0 False]
   \<and> fst (wg_api_v2_key_exchange ex_cfg ex_body initial_state)
       = (ErrorMessage ''no gateway online for this domain, please check the domain value and try again later'', 400)
   \<and> events (snd (wg_api_v2_key_exchange ex_cfg ex_body initial_state))
       = [Log Info (''wg_api_v2_key_exchange: Domain: ffda, Key:'' @ ex_key) [],
          Publish ''wireguard/ffda/all'' ex_key 0 False,
          Log Warning ''No worker online for domain ffda'' []]"
  using publish_before_selection [OF ex_parse, of initial_state]
  by (simp add: ex_parse wg_api_v2_key_exchange_def Let_def initial_state_def get_best_worker_def
      candidates_def List.map_filter_def)



subsection \<open>Worker data messages\<close>

text \<open>
  \<^verbatim>\<open>WorkerData.from_dict\<close> never returns: when \<^verbatim>\<open>int(msg.get("Port"))\<close> does not raise, line 83
  does. So the worker-data callback never writes the worker data store, whatever the topic,
  the payload and the decoder.
\<close>

lemma WorkerData_from_dict_raises: "\<exists>e. WorkerData_from_dict msg = Inl e"
  by (cases "py_int_of (dict_get msg ''Port'')")
     (simp_all add: WorkerData_from_dict_def unbound_local_def)

lemma handle_mqtt_message_data_never_stores:
  "worker_data (snd (handle_mqtt_message_data cfg json_loads message s)) = worker_data s"
proof -
  have nr: "WorkerData_from_dict obj \<noteq> Inr w" for obj w
    using WorkerData_from_dict_raises [of obj] by auto
  show ?thesis
    by (auto simp: handle_mqtt_message_data_def nr split: list.splits sum.splits json.splits)
qed

text \<open>
  Claim C3 says that a complete and valid worker-data document is stored with its
  \<^verbatim>\<open>LinkAddress\<close>. On the code it is not: for \<open>ex_payload\<close>, sent for worker \<^verbatim>\<open>gw1\<close> and the
  configured domain \<^verbatim>\<open>ffda\<close>, \<^verbatim>\<open>from_dict\<close> raises \<^verbatim>\<open>UnboundLocalError\<close>, the bare \<^verbatim>\<open>except\<close>
  catches it, and the callback logs ``Invalid worker data'' and leaves the store as it was.
\<close>

theorem worker_data_message_dropped:
  "WorkerData_from_dict ex_worker_data = Inl (UnboundLocalError ''link_address'')
   \<and> handle_mqtt_message_data ex_cfg ex_json_loads
        \<lparr>topic = ''wireguard-worker/gw1/ffda/data'', payload = ex_payload\<rparr> ex_state_broker
      = (None, logger Error ''Invalid worker data received for %s/%s: %s''
                 [ArgStr ''gw1'', ArgStr ''ffda'', ArgJson (JDict ex_worker_data)] ex_state_broker)"
  by (simp add: WorkerData_from_dict_def unbound_local_def ex_worker_data_def dict_get_def
      handle_mqtt_message_data_def eval_nat_numeral ex_cfg_def is_valid_domain_def
      ex_json_loads_def)

subsection \<open>Malformed payloads\<close>

text \<open>
  Where the callbacks guard: the metrics callback logs an error and returns when the domain is
  not configured or a label is empty, whatever the payload; the data callback logs an error
  and returns when the decoded document is no object or \<^verbatim>\<open>WorkerData.from_dict\<close> raises.
\<close>

lemma metrics_bad_topic_logged:
  assumes "decode (payload message) = Inr decoded"
    and "split_max (CHR ''/'') 3 (topic message) = [x, d, worker, metric]"
    and "\<not> is_valid_domain cfg d"
  shows "handle_mqtt_message_metrics cfg message s =
      (None, logger Error (''Domain '' @ d @ '' not in configured domains'') []
               (logger Debug (''MQTT message received on '' @ topic message @ '': '' @ decoded) [] s))"
  using assms by (simp add: handle_mqtt_message_metrics_def Let_def)

lemma data_rejected_logged:
  assumes "split_max (CHR ''/'') 3 (topic message) = [x, worker, d, y]"
    and "is_valid_domain cfg d"
    and "json_loads (payload message) = Inr msg"
    and "(\<exists>v. msg = JValue v) \<or> (\<exists>obj e. msg = JDict obj \<and> WorkerData_from_dict obj = Inl e)"
  shows "handle_mqtt_message_data cfg json_loads message s =
      (None, logger Error ''Invalid worker data received for %s/%s: %s''
               [ArgStr worker, ArgStr d, ArgJson msg] s)"
  using assms by (auto simp: handle_mqtt_message_data_def)

text \<open>
  Where they do not: \<^verbatim>\<open>int(message.payload)\<close> in the metrics and the two status callbacks and
  \<^verbatim>\<open>json.loads(message.payload)\<close> in the data callback stand outside any \<^verbatim>\<open>try\<close>. The exception
  they raise leaves the callback, with nothing logged at error level.
\<close>

lemma status_non_integer:
  assumes "py_int (payload message) = Inl e" and "topic_id message = Some w"
  shows "handle_mqtt_message_worker_status message s = (Some e, s)"
    and "handle_mqtt_message_broker_status message s = (Some e, s)"
  using assms
  by (auto simp: handle_mqtt_message_worker_status_def handle_mqtt_message_broker_status_def
      topic_id_def split: list.splits)

lemma metrics_non_integer_raises:
  assumes "py_int (payload message) = Inl e"
    and "decode (payload message) = Inr decoded"
    and "split_max (CHR ''/'') 3 (topic message) = [x, d, worker, metric]"
    and "is_valid_domain cfg d" and "worker \<noteq> []" and "metric \<noteq> []"
  shows "handle_mqtt_message_metrics cfg message s =
      (Some e, logger Debug (''MQTT message received on '' @ topic message @ '': '' @ decoded) [] s)"
  using assms by (simp add: handle_mqtt_message_metrics_def Let_def)

lemma data_malformed_json_raises:
  assumes "split_max (CHR ''/'') 3 (topic message) = [x, worker, d, y]"
    and "is_valid_domain cfg d"
    and "json_loads (payload message) = Inl e"
  shows "handle_mqtt_message_data cfg json_loads message s = (Some e, s)"
  using assms by (simp add: handle_mqtt_message_data_def)

text \<open>
  Claim C5 says that every malformed payload is logged and dropped and that no callback lets
  an exception out. On the code, a payload \<^verbatim>\<open>abc\<close> for the metric \<^verbatim>\<open>connected_peers\<close> of worker
  \<^verbatim>\<open>gw1\<close> in the configured domain \<^verbatim>\<open>ffda\<close> makes the metrics callback raise \<^verbatim>\<open>int\<close>'s
  \<^verbatim>\<open>ValueError\<close> after its debug line, with no error logged; the same payload makes the
  worker-status and the broker-status callback raise it; and a payload that \<^verbatim>\<open>json.loads\<close>
  rejects makes the data callback raise \<^verbatim>\<open>JSONDecodeError\<close>.
\<close>

theorem malformed_payload_raises:
  "handle_mqtt_message_metrics ex_cfg
      \<lparr>topic = ''wireguard-metrics/ffda/gw1/connected_peers'', payload = ''abc''\<rparr> initial_state
     = (Some InvalidLiteral,
        initial_state\<lparr>events :=
          [Log Debug ''MQTT message received on wireguard-metrics/ffda/gw1/connected_peers: abc'' []]\<rparr>)
   \<and> handle_mqtt_message_worker_status
        \<lparr>topic = ''wireguard-worker/gw1/status'', payload = ''abc''\<rparr> initial_state
     = (Some InvalidLiteral, initial_state)
   \<and> handle_mqtt_message_broker_status
        \<lparr>topic = ''wireguard-broker/broker1/status'', payload = ''abc''\<rparr> initial_state
     = (Some InvalidLiteral, initial_state)
   \<and> handle_mqtt_message_data ex_cfg (\<lambda>p. Inl JSONDecodeError)
        \<lparr>topic = ''wireguard-worker/gw1/ffda/data'', payload = ''{''\<rparr> initial_state
     = (Some JSONDecodeError, initial_state)"
  by (simp add: handle_mqtt_message_metrics_def handle_mqtt_message_worker_status_def
      handle_mqtt_message_broker_status_def handle_mqtt_message_data_def decode_def
      eval_nat_numeral ex_cfg_def is_valid_domain_def py_int_eval initial_state_def logger_def)

subsection \<open>Broker status messages\<close>

lemma broker_status_step:
  "broker_status (snd (handle_mqtt_message_broker_status message s)) =
     (case topic_id message of
        None \<Rightarrow> broker_status s
      | Some b \<Rightarrow>
          (case py_int (payload message) of
             Inl e \<Rightarrow> broker_status s
           | Inr status \<Rightarrow>
               (case map_of (broker_status s) b of
                  None \<Rightarrow> if status \<ge> 1
                          then AList.update b \<lparr>BrokerStatus.online = True\<rparr> (broker_status s)
                          else broker_status s
                | Some bsd \<Rightarrow>
                    if (status < 1 \<and> BrokerStatus.online bsd) \<or> (status \<ge> 1 \<and> \<not> BrokerStatus.online bsd)
                    then AList.update b \<lparr>BrokerStatus.online = (status \<ge> 1)\<rparr> (broker_status s)
                    else broker_status s)))"
  by (auto simp: handle_mqtt_message_broker_status_def topic_id_def
      split: list.splits sum.splits option.splits)




lemma broker_entry_after:
  assumes "topic_id message = Some b" and "py_int (payload message) = Inr status"
    and "broker_known s b \<or> 1 \<le> status"
  shows "map_of (broker_status (snd (handle_mqtt_message_broker_status message s))) b
           = Some \<lparr>BrokerStatus.online = (1 \<le> status)\<rparr>"
proof (cases "map_of (broker_status s) b")
  case None
  then show ?thesis using assms
    by (auto simp: broker_status_step update_conv' broker_known_def)
next
  case (Some bsd)
  moreover have "bsd = \<lparr>BrokerStatus.online = BrokerStatus.online bsd\<rparr>" by (cases bsd) simp
  ultimately show ?thesis using assms
    by (auto simp: broker_status_step update_conv' broker_known_def)
qed




subsection \<open>Counting online brokers\<close>

lemma online_brokers_pos:
  "1 \<le> online_brokers bs \<longleftrightarrow> (\<exists>e\<in>set bs. BrokerStatus.online (snd e))"
proof -
  have "1 \<le> online_brokers bs \<longleftrightarrow> filter (\<lambda>e. BrokerStatus.online (snd e)) bs \<noteq> []"
    by (cases "filter (\<lambda>e. BrokerStatus.online (snd e)) bs") (simp_all add: online_brokers_length)
  then show ?thesis by (simp add: filter_empty_conv)
qed

lemma online_after_online_message:
  assumes "topic_id message = Some b" and "py_int (payload message) = Inr status" and "1 \<le> status"
  shows "1 \<le> online_brokers (broker_status (snd (handle_mqtt_message_broker_status message s)))"
proof -
  have "map_of (broker_status (snd (handle_mqtt_message_broker_status message s))) b
           = Some \<lparr>BrokerStatus.online = True\<rparr>"
    using broker_entry_after [OF assms(1,2), of s] assms(3) by simp
  then have "(b, \<lparr>BrokerStatus.online = True\<rparr>)
      \<in> set (broker_status (snd (handle_mqtt_message_broker_status message s)))"
    by (rule map_of_SomeD)
  then show ?thesis unfolding online_brokers_pos by force
qed

text \<open>
  Claim C8, as amended. The number \<open>n\<close> the v2 handler computes is the number of entries of the
  broker liveness store whose online flag is set; it is at least 1 exactly when the store holds
  an online entry. \<^verbatim>\<open>handle_mqtt_connect\<close> publishes the broker's own announcement and leaves the
  store as it is; the store holds an online entry once a broker-status message with payload at
  least 1, such as that announcement delivered back, has been handled.
\<close>

theorem online_brokers_at_least_one:
  "online_brokers bs = int (length (filter (\<lambda>e. BrokerStatus.online (snd e)) bs))
   \<and> (1 \<le> online_brokers bs \<longleftrightarrow> (\<exists>e\<in>set bs. BrokerStatus.online (snd e)))
   \<and> broker_status (handle_mqtt_connect cfg s) = broker_status s
   \<and> (topic_id message = Some b \<and> (\<exists>status. py_int (payload message) = Inr status \<and> 1 \<le> status) \<longrightarrow>
        1 \<le> online_brokers (broker_status (snd (handle_mqtt_message_broker_status message s))))"
  using online_brokers_length [of bs] online_brokers_pos [of bs]
    online_after_online_message [of message b _ s]
  by (auto simp: handle_mqtt_connect_def Let_def)

theorem online_brokers_at_least_one_witness:
  "topic_id \<lparr>topic = ''wireguard-broker/broker1/status'', payload = ''1''\<rparr> = Some ''broker1''
   \<and> py_int ''1'' = Inr 1
   \<and> online_brokers (broker_status ex_state) = 0
   \<and> online_brokers (broker_status (snd (handle_mqtt_message_broker_status
        \<lparr>topic = ''wireguard-broker/broker1/status'', payload = ''1''\<rparr> ex_state))) = 1"
  using online_brokers_at_least_one [where bs = "broker_status ex_state" and cfg = ex_cfg
      and message = "\<lparr>topic = ''wireguard-broker/broker1/status'', payload = ''1''\<rparr>"
      and b = "''broker1''" and s = ex_state]
  by (simp add: topic_id_def eval_nat_numeral py_int_eval ex_state_stores
      handle_mqtt_message_broker_status_def online_brokers_def)

text \<open>
  The claim as stated fails in \<open>ex_state\<close>, where the broker has connected and a worker is known
  but no broker-status message has been handled yet: a v2 request chooses \<^verbatim>\<open>gw1\<close>, reaches the
  interpolation with \<open>n = 0\<close> and leaves the worker's peers at 10.
\<close>

theorem no_broker_announced_counterexample:
  "online_brokers (broker_status ex_state) = 0
   \<and> get_best_worker (worker_metrics ex_state) ''ffda'' = (Some ''gw1'', 0, 10)
   \<and> fst (wg_api_v2_key_exchange ex_cfg ex_body ex_state)
       = (ErrorMessage ''could not get gateway data'', 500)
   \<and> stored_metric (worker_metrics (snd (wg_api_v2_key_exchange ex_cfg ex_body ex_state)))
        ''gw1'' ''ffda'' CONNECTED_PEERS_METRIC = Some 10"
proof -
  have n: "online_brokers (broker_status ex_state) = 0"
    by (simp add: ex_state_stores online_brokers_def)
  have m: "stored_metric (worker_metrics (snd (wg_api_v2_key_exchange ex_cfg ex_body ex_state)))
        ''gw1'' ''ffda'' CONNECTED_PEERS_METRIC
      = Some ((case stored_metric (worker_metrics ex_state) ''gw1'' ''ffda'' CONNECTED_PEERS_METRIC of
                None \<Rightarrow> 0 | Some v \<Rightarrow> v) + online_brokers (broker_status ex_state))"
  proof -
    have g: "get_best_worker (worker_metrics ex_state)
             (domain \<lparr>KeyExchange.public_key = ex_key, domain = ''ffda''\<rparr>) = (Some ''gw1'', 0, 10)"
      by (simp add: ex_best_worker)
    show ?thesis
      by (simp add: v2_after_selection [OF ex_parse g] v2_serve_metrics stored_metric_update)
  qed
  have o: "stored_metric (worker_metrics ex_state) ''gw1'' ''ffda'' CONNECTED_PEERS_METRIC = Some 10"
    by (simp add: ex_state_stores stored_metric_def get_domain_metrics_def CONNECTED_PEERS_METRIC_def)
  show ?thesis using n m o ex_best_worker ex_v2_response(2) by simp
qed

subsection \<open>Invariants of the reachable states\<close>

text \<open>
  In every reachable state the worker metrics store has no worker id twice, which is what the
  selection theorem assumes of a store, and the worker data store is empty, since no
  worker-data message is ever stored. The v2 handler therefore never answers 200. The last
  lemma spells out which request bodies are valid.
\<close>

lemma get_distinct:
  "distinct (map fst c) \<Longrightarrow> get c w = (m, c1) \<Longrightarrow> distinct (map fst c1)"
  by (auto simp: get_def map_of_eq_None_iff split: option.splits)

lemma update_distinct: "distinct (map fst c) \<Longrightarrow> distinct (map fst (update c w d metric v))"
  by (cases "get c w") (auto simp: update_def distinct_update dest: get_distinct)

lemma set_online_distinct: "distinct (map fst c) \<Longrightarrow> distinct (map fst (set_online c w))"
  by (cases "get c w") (auto simp: set_online_def distinct_update dest: get_distinct)

lemma set_offline_distinct: "distinct (map fst c) \<Longrightarrow> distinct (map fst (set_offline c w))"
  by (cases "get c w") (auto simp: set_offline_def distinct_update dest: get_distinct)

lemma metrics_keeps_distinct:
  "distinct (map fst (worker_metrics s)) \<Longrightarrow>
     distinct (map fst (worker_metrics (snd (handle_mqtt_message_metrics cfg message s))))"
  by (auto simp: handle_mqtt_message_metrics_def Let_def update_distinct
      split: sum.splits list.splits)

lemma worker_status_keeps_distinct:
  "distinct (map fst (worker_metrics s)) \<Longrightarrow>
     distinct (map fst (worker_metrics (snd (handle_mqtt_message_worker_status message s))))"
  by (auto simp: handle_mqtt_message_worker_status_def set_online_distinct set_offline_distinct
      split: sum.splits list.splits prod.splits dest: get_distinct)

lemma v2_keeps_distinct:
  "distinct (map fst (worker_metrics s)) \<Longrightarrow>
     distinct (map fst (worker_metrics (snd (wg_api_v2_key_exchange cfg body s))))"
  by (auto simp: wg_api_v2_key_exchange_def Let_def v2_serve_metrics update_distinct
      split: sum.splits prod.splits option.splits)

lemma other_handlers_keep_metrics:
  "worker_metrics (handle_mqtt_connect cfg s) = worker_metrics s"
  "worker_metrics (snd (handle_mqtt_message_data cfg json_loads message s)) = worker_metrics s"
  "worker_metrics (snd (handle_mqtt_message_broker_status message s)) = worker_metrics s"
  "worker_metrics (snd (wg_api_v1_key_exchange cfg body s)) = worker_metrics s"
  by (auto simp: handle_mqtt_connect_def handle_mqtt_message_data_def
      handle_mqtt_message_broker_status_def wg_api_v1_key_exchange_def Let_def
      split: sum.splits list.splits json.splits option.splits)

lemma other_handlers_keep_data:
  "worker_data (handle_mqtt_connect cfg s) = worker_data s"
  "worker_data (snd (handle_mqtt_message_metrics cfg message s)) = worker_data s"
  "worker_data (snd (handle_mqtt_message_worker_status message s)) = worker_data s"
  "worker_data (snd (handle_mqtt_message_broker_status message s)) = worker_data s"
  "worker_data (snd (wg_api_v1_key_exchange cfg body s)) = worker_data s"
  "worker_data (snd (wg_api_v2_key_exchange cfg body s)) = worker_data s"
  by (auto simp: handle_mqtt_connect_def handle_mqtt_message_metrics_def
      handle_mqtt_message_worker_status_def
      handle_mqtt_message_broker_status_def wg_api_v1_key_exchange_def wg_api_v2_key_exchange_def
      v2_serve_def Let_def
      split: sum.splits list.splits prod.splits option.splits)

lemma reachable_invariant:
  "reachable cfg s \<Longrightarrow> distinct (map fst (worker_metrics s)) \<and> worker_data s = []"
proof (induction rule: reachable.induct)
  case start
  then show ?case by (simp add: initial_state_def)
next
  case (connect s)
  then show ?case by (simp add: other_handlers_keep_metrics other_handlers_keep_data)
next
  case (metrics s message)
  then show ?case by (simp add: metrics_keeps_distinct other_handlers_keep_data)
next
  case (worker_status s message)
  then show ?case by (simp add: worker_status_keeps_distinct other_handlers_keep_data)
next
  case (data s json_loads message)
  then show ?case
    by (simp add: other_handlers_keep_metrics handle_mqtt_message_data_never_stores)
next
  case (broker_status s message)
  then show ?case by (simp add: other_handlers_keep_metrics other_handlers_keep_data)
next
  case (v1 s body)
  then show ?case by (simp add: other_handlers_keep_metrics other_handlers_keep_data)
next
  case (v2 s body)
  then show ?case by (simp add: v2_keeps_distinct other_handlers_keep_data)
qed

lemma v2_never_200:
  assumes "reachable cfg s"
  shows "snd (fst (wg_api_v2_key_exchange cfg body s)) \<noteq> 200"
proof -
  have wd: "worker_data s = []" using reachable_invariant [OF assms] by simp
  show ?thesis
    by (auto simp: wg_api_v2_key_exchange_def Let_def v2_serve_response wd
        split: sum.splits prod.splits option.splits)
qed

lemma parse_request_valid:
  assumes "dict_get obj ''public_key'' = PyStr k r" and "matches_wg_regex k"
    and "dict_get obj ''domain'' = PyStr d r'" and "d \<in> set (domains cfg)"
  shows "parse_request cfg (Inr (JDict obj)) = Inr \<lparr>KeyExchange.public_key = k, domain = d\<rparr>"
  using assms
  by (simp add: parse_request_def KeyExchange_from_dict_def is_valid_wg_pubkey_def re_match_iff
      is_valid_domain_def)

end
